theory Spec2Isabelle
  imports Main
begin

section \<open>Data model of \<open>wouso/core/user/models.py\<close>\<close>

text \<open>
  Every Django model is a table of rows. A row is a record of the model's columns, with
  the automatic primary key \<open>id\<close> first; a foreign key column holds the primary key of
  the row it refers to (players, artifacts and spells are therefore natural numbers here).
  A table is the list of its rows in storage order.
\<close>

text \<open>The exceptions that the modelled methods raise or let through.\<close>

datatype exn =
    InsufficientAmount
  | AttributeError
  | AssertionError
  | DoesNotExist
  | MultipleObjectsReturned
  | IntegrityError
  | OverflowError
  | OracleError

record PlayerGroup =
  pg_id :: nat
  pg_name :: string
  gclass :: int
  parent :: "nat option"

record PlayerArtifactAmount =
  paa_id :: nat
  paa_player :: nat
  paa_artifact :: nat
  paa_amount :: int

record PlayerSpellAmount =
  psa_id :: nat
  psa_player :: nat
  psa_spell :: nat
  psa_amount :: int

record PlayerSpellDue =
  psd_id :: nat
  psd_player :: nat
  psd_spell :: nat
  psd_source :: nat
  psd_due :: int

text \<open>
  The database. \<open>Artifact\<close> and \<open>Spell\<close> come from \<open>wouso.core.magic.models\<close>; the
  methods below only read their \<open>name\<close> column (the lookups \<open>artifact__name\<close> and
  \<open>spell__name\<close>), so each of the two tables is the map from primary key to name.

  The \<open>amount\<close> columns are \<open>models.IntegerField\<close>: the database stores integers of
  a bounded range only, and which range depends on the backend, so its two ends are part
  of the database. Each table with created rows has its key sequence: the largest
  automatic key handed out so far, which a deleted row does not give back.
\<close>

record db =
  IntegerField_min :: int
  IntegerField_max :: int
  Artifact_name :: "nat \<rightharpoonup> string"
  Spell_name :: "nat \<rightharpoonup> string"
  PlayerArtifactAmount_objects :: "PlayerArtifactAmount list"
  PlayerArtifactAmount_seq :: nat
  PlayerSpellAmount_objects :: "PlayerSpellAmount list"
  PlayerSpellAmount_seq :: nat
  PlayerSpellDue_objects :: "PlayerSpellDue list"
  PlayerSpellDue_seq :: nat

subsection \<open>The object-relational layer\<close>

text \<open>
  \<open>Model.objects.get(...)\<close> on the rows that pass the filter: no row raises
  \<open>DoesNotExist\<close>, one row is returned, several rows raise \<open>MultipleObjectsReturned\<close>.
\<close>

fun get_one :: "'r list \<Rightarrow> exn + 'r" where
  "get_one [] = Inl DoesNotExist"
| "get_one [r] = Inr r"
| "get_one (r # r' # rs) = Inl MultipleObjectsReturned"

text \<open>
  The next value of an automatic primary key: one above the key sequence and above every
  key in the table.
\<close>

definition next_id :: "nat \<Rightarrow> ('r \<Rightarrow> nat) \<Rightarrow> 'r list \<Rightarrow> nat" where
  "next_id seq idf rows = Suc (max seq (fold max (map idf rows) 0))"

text \<open>What an \<open>IntegerField\<close> column of the database can hold.\<close>

definition storable :: "db \<Rightarrow> int \<Rightarrow> bool" where
  "storable s x \<longleftrightarrow> IntegerField_min s \<le> x \<and> x \<le> IntegerField_max s"

text \<open>
  \<open>obj.save()\<close> of an object that has a primary key: the row with that key is
  overwritten; when no row has the key, the object is inserted.
\<close>

definition save_row :: "('r \<Rightarrow> nat) \<Rightarrow> 'r \<Rightarrow> 'r list \<Rightarrow> 'r list" where
  "save_row idf r rows =
     (if list_ex (\<lambda>x. idf x = idf r) rows
      then map (\<lambda>x. if idf x = idf r then r else x) rows
      else rows @ [r])"

text \<open>\<open>obj.delete()\<close>: the row with the object's primary key is removed.\<close>

definition delete_row :: "('r \<Rightarrow> nat) \<Rightarrow> 'r \<Rightarrow> 'r list \<Rightarrow> 'r list" where
  "delete_row idf r rows = filter (\<lambda>x. idf x \<noteq> idf r) rows"

text \<open>
  \<open>paamount.save()\<close> and \<open>psamount.save()\<close>: an amount outside the column's range is
  refused (\<open>OverflowError\<close> here, whatever name the backend gives it) and nothing is
  stored.
\<close>

definition save_PlayerArtifactAmount :: "db \<Rightarrow> PlayerArtifactAmount \<Rightarrow> exn + db" where
  "save_PlayerArtifactAmount s r =
     (if \<not> storable s (paa_amount r) then Inl OverflowError
      else Inr (s\<lparr>PlayerArtifactAmount_objects :=
                  save_row paa_id r (PlayerArtifactAmount_objects s)\<rparr>))"

definition save_PlayerSpellAmount :: "db \<Rightarrow> PlayerSpellAmount \<Rightarrow> exn + db" where
  "save_PlayerSpellAmount s r =
     (if \<not> storable s (psa_amount r) then Inl OverflowError
      else Inr (s\<lparr>PlayerSpellAmount_objects :=
                  save_row psa_id r (PlayerSpellAmount_objects s)\<rparr>))"

text \<open>
  \<open>PlayerArtifactAmount.objects.create(player, artifact, amount)\<close>. The artifact column
  is not nullable, the amount must fit its column, and
  \<open>unique_together = ('player', 'artifact')\<close>: each is refused by the database, which
  then stays as it is.
\<close>

definition create_PlayerArtifactAmount ::
  "db \<Rightarrow> nat \<Rightarrow> nat option \<Rightarrow> int \<Rightarrow> (exn + PlayerArtifactAmount) \<times> db" where
  "create_PlayerArtifactAmount s player artifact amount =
     (case artifact of
        None \<Rightarrow> (Inl IntegrityError, s)
      | Some a \<Rightarrow>
          if \<not> storable s amount then (Inl OverflowError, s)
          else if list_ex (\<lambda>x. paa_player x = player \<and> paa_artifact x = a)
               (PlayerArtifactAmount_objects s)
          then (Inl IntegrityError, s)
          else
            let k = next_id (PlayerArtifactAmount_seq s) paa_id (PlayerArtifactAmount_objects s);
                r = \<lparr>paa_id = k, paa_player = player, paa_artifact = a, paa_amount = amount\<rparr>
            in (Inr r, s\<lparr>PlayerArtifactAmount_objects := PlayerArtifactAmount_objects s @ [r],
                          PlayerArtifactAmount_seq := k\<rparr>))"

text \<open>
  \<open>PlayerSpellAmount.objects.create(player, spell)\<close>: the amount takes the column's
  default, 1; \<open>unique_together = ('player', 'spell')\<close>.
\<close>

definition create_PlayerSpellAmount ::
  "db \<Rightarrow> nat \<Rightarrow> nat \<Rightarrow> (exn + PlayerSpellAmount) \<times> db" where
  "create_PlayerSpellAmount s player spell =
     (if \<not> storable s 1 then (Inl OverflowError, s)
      else if list_ex (\<lambda>x. psa_player x = player \<and> psa_spell x = spell)
           (PlayerSpellAmount_objects s)
      then (Inl IntegrityError, s)
      else
        let k = next_id (PlayerSpellAmount_seq s) psa_id (PlayerSpellAmount_objects s);
            r = \<lparr>psa_id = k, psa_player = player, psa_spell = spell, psa_amount = 1\<rparr>
        in (Inr r, s\<lparr>PlayerSpellAmount_objects := PlayerSpellAmount_objects s @ [r],
                      PlayerSpellAmount_seq := k\<rparr>))"

text \<open>
  \<open>PlayerSpellDue.objects.create(player, source, spell, due)\<close>;
  \<open>unique_together = ('player', 'spell')\<close>.
\<close>

definition create_PlayerSpellDue ::
  "db \<Rightarrow> nat \<Rightarrow> nat \<Rightarrow> nat \<Rightarrow> int \<Rightarrow> (exn + PlayerSpellDue) \<times> db" where
  "create_PlayerSpellDue s player source spell due =
     (if list_ex (\<lambda>x. psd_player x = player \<and> psd_spell x = spell)
           (PlayerSpellDue_objects s)
      then (Inl IntegrityError, s)
      else
        let k = next_id (PlayerSpellDue_seq s) psd_id (PlayerSpellDue_objects s);
            r = \<lparr>psd_id = k, psd_player = player, psd_spell = spell, psd_source = source,
                 psd_due = due\<rparr>
        in (Inr r, s\<lparr>PlayerSpellDue_objects := PlayerSpellDue_objects s @ [r],
                      PlayerSpellDue_seq := k\<rparr>))"

subsection \<open>The oracle\<close>

text \<open>
  Modelled from the spec: the module \<open>wouso.core.god\<close> is not part of the sources. The
  spec lists \<open>get_artifact_for_modifier(name, player)\<close>, an external lookup keyed by the
  modifier name, and \<open>post_cast(spell_due_record)\<close>, notified for side effects. Both are
  parameters here: the lookup returns the primary key of an artifact, \<open>None\<close>, or
  raises; \<open>post_cast\<close> returns normally or raises, and leaves a database behind. The
  comment at the call in \<open>cast_spell\<close> says that spells such as the clean-spells are
  implemented there, so \<open>post_cast\<close> may well change the tables.
\<close>

record God =
  get_artifact_for_modifier :: "string \<Rightarrow> nat \<Rightarrow> db \<Rightarrow> exn + nat option"
  post_cast :: "PlayerSpellDue \<Rightarrow> db \<Rightarrow> exn option \<times> db"

section \<open>\<open>PlayerGroup\<close>\<close>

text \<open>
  \<open>children\<close>: \<open>self.playergroup_set.all()\<close>, the groups whose parent is this group.
\<close>

definition children :: "PlayerGroup list \<Rightarrow> PlayerGroup \<Rightarrow> PlayerGroup list" where
  "children groups g = filter (\<lambda>h. parent h = Some (pg_id g)) groups"

text \<open>
  \<open>sisters\<close>. The instance attribute \<open>self._sisters\<close> is the third argument; the property
  returns the value it leaves there. \<open>self.parent\<close> loads the parent row, which
  raises \<open>DoesNotExist\<close> when the key refers to no row; a loaded model instance is true.
\<close>

definition sisters :: "PlayerGroup list \<Rightarrow> PlayerGroup \<Rightarrow> PlayerGroup list \<Rightarrow> exn + PlayerGroup list" where
  "sisters groups self self_sisters =
     (if self_sisters = [] then
        (case parent self of
           Some p \<Rightarrow>
             (case get_one (filter (\<lambda>h. pg_id h = p) groups) of
                Inl e \<Rightarrow> Inl e
              | Inr par \<Rightarrow> Inr (filter (\<lambda>h. pg_id h \<noteq> pg_id self) (children groups par)))
         | None \<Rightarrow>
             Inr (filter (\<lambda>h. pg_id h \<noteq> pg_id self)
                    (filter (\<lambda>h. gclass h = gclass self) groups)))
      else Inr self_sisters)"

section \<open>\<open>Player\<close>: modifier accounting\<close>

text \<open>
  What \<open>has_modifier\<close> returns: a \<open>PlayerArtifactAmount\<close> object, a \<open>PlayerSpellDue\<close>
  object, or \<open>False\<close>.
\<close>

datatype modifier =
    ArtifactAmount PlayerArtifactAmount
  | SpellDue PlayerSpellDue
  | NotFound

text \<open>The two querysets of \<open>has_modifier\<close>, for the player \<open>self\<close> and the name.\<close>

definition artifact_amounts_named :: "db \<Rightarrow> nat \<Rightarrow> string \<Rightarrow> PlayerArtifactAmount list" where
  "artifact_amounts_named s self modifier =
     filter (\<lambda>r. paa_player r = self \<and> Artifact_name s (paa_artifact r) = Some modifier)
       (PlayerArtifactAmount_objects s)"

definition spell_dues_named :: "db \<Rightarrow> nat \<Rightarrow> string \<Rightarrow> PlayerSpellDue list" where
  "spell_dues_named s self modifier =
     filter (\<lambda>r. psd_player r = self \<and> Spell_name s (psd_spell r) = Some modifier)
       (PlayerSpellDue_objects s)"

definition has_modifier :: "db \<Rightarrow> nat \<Rightarrow> string \<Rightarrow> exn + modifier" where
  "has_modifier s self modifier =
     (case get_one (artifact_amounts_named s self modifier) of
        Inr r \<Rightarrow> Inr (ArtifactAmount r)
      | Inl e \<Rightarrow>
          if e \<noteq> DoesNotExist then Inl e
          else
            (case get_one (spell_dues_named s self modifier) of
               Inr d \<Rightarrow> Inr (SpellDue d)
             | Inl e' \<Rightarrow> if e' \<noteq> DoesNotExist then Inl e' else Inr NotFound))"

text \<open>
  \<open>use_modifier\<close>. Reading \<open>.amount\<close> of \<open>False\<close> or of a \<open>PlayerSpellDue\<close> object
  raises \<open>AttributeError\<close>. The result is the returned object (or the exception) and the
  database afterwards. The returned object is given by its columns as the method leaves
  them; that \<open>delete()\<close> also clears the key attribute of the object is not part of the
  model.
\<close>

definition use_modifier :: "db \<Rightarrow> nat \<Rightarrow> string \<Rightarrow> int \<Rightarrow> (exn + modifier) \<times> db" where
  "use_modifier s self modifier amount =
     (case has_modifier s self modifier of
        Inl e \<Rightarrow> (Inl e, s)
      | Inr NotFound \<Rightarrow> (Inl AttributeError, s)
      | Inr (SpellDue d) \<Rightarrow> (Inl AttributeError, s)
      | Inr (ArtifactAmount pa) \<Rightarrow>
          if amount > paa_amount pa then (Inl InsufficientAmount, s)
          else
            let paamount = pa\<lparr>paa_amount := paa_amount pa - amount\<rparr> in
            if paa_amount paamount = 0
            then (Inr (ArtifactAmount paamount),
                  s\<lparr>PlayerArtifactAmount_objects :=
                      delete_row paa_id paamount (PlayerArtifactAmount_objects s)\<rparr>)
            else
              (case save_PlayerArtifactAmount s paamount of
                 Inl e \<Rightarrow> (Inl e, s)
               | Inr s' \<Rightarrow> (Inr (ArtifactAmount paamount), s')))"

text \<open>
  \<open>give_modifier\<close>. The early \<open>return\<close> gives \<open>None\<close>; \<open>not paamount\<close> holds for
  \<open>False\<close> only.
\<close>

definition give_modifier :: "God \<Rightarrow> db \<Rightarrow> nat \<Rightarrow> string \<Rightarrow> int \<Rightarrow> (exn + modifier option) \<times> db" where
  "give_modifier G s self modifier amount =
     (if amount \<le> 0 then (Inr None, s)
      else
        (case has_modifier s self modifier of
           Inl e \<Rightarrow> (Inl e, s)
         | Inr NotFound \<Rightarrow>
             (case get_artifact_for_modifier G modifier self s of
                Inl e \<Rightarrow> (Inl e, s)
              | Inr artifact \<Rightarrow>
                  (case create_PlayerArtifactAmount s self artifact amount of
                     (Inl e, s') \<Rightarrow> (Inl e, s')
                   | (Inr paamount, s') \<Rightarrow> (Inr (Some (ArtifactAmount paamount)), s')))
         | Inr (SpellDue d) \<Rightarrow> (Inl AttributeError, s)
         | Inr (ArtifactAmount pa) \<Rightarrow>
             let paamount = pa\<lparr>paa_amount := paa_amount pa + amount\<rparr>
             in (case save_PlayerArtifactAmount s paamount of
                   Inl e \<Rightarrow> (Inl e, s)
                 | Inr s' \<Rightarrow> (Inr (Some (ArtifactAmount paamount)), s'))))"

text \<open>The querysets of \<open>add_spell\<close> and \<open>cast_spell\<close>: player and spell by key.\<close>

definition spell_amounts_of :: "db \<Rightarrow> nat \<Rightarrow> nat \<Rightarrow> PlayerSpellAmount list" where
  "spell_amounts_of s player spell =
     filter (\<lambda>r. psa_player r = player \<and> psa_spell r = spell) (PlayerSpellAmount_objects s)"

definition add_spell :: "db \<Rightarrow> nat \<Rightarrow> nat \<Rightarrow> (exn + unit) \<times> db" where
  "add_spell s self spell =
     (case get_one (spell_amounts_of s self spell) of
        Inl e \<Rightarrow>
          if e \<noteq> DoesNotExist then (Inl e, s)
          else
            (case create_PlayerSpellAmount s self spell of
               (Inl e', s') \<Rightarrow> (Inl e', s')
             | (Inr psamount, s') \<Rightarrow> (Inr (), s'))
      | Inr ps \<Rightarrow>
          let psamount = ps\<lparr>psa_amount := psa_amount ps + 1\<rparr>
          in (case save_PlayerSpellAmount s psamount of
                Inl e \<Rightarrow> (Inl e, s)
              | Inr s' \<Rightarrow> (Inr (), s')))"

text \<open>
  \<open>cast_spell\<close>. The first \<open>try\<close> catches \<open>DoesNotExist\<close> and the failed assertion only;
  the second one catches everything, a refused \<open>create\<close> or \<open>save\<close> included.
\<close>

definition cast_spell :: "God \<Rightarrow> db \<Rightarrow> nat \<Rightarrow> nat \<Rightarrow> nat \<Rightarrow> int \<Rightarrow> (exn + bool) \<times> db" where
  "cast_spell G s self spell source due =
     (case get_one (spell_amounts_of s source spell) of
        Inl e \<Rightarrow> if e \<noteq> DoesNotExist then (Inl e, s) else (Inr False, s)
      | Inr ps \<Rightarrow>
          if \<not> psa_amount ps > 0 then (Inr False, s)
          else
            (case create_PlayerSpellDue s self source spell due of
               (Inl e, s1) \<Rightarrow> (Inr False, s1)
             | (Inr psdue, s1) \<Rightarrow>
                 (case post_cast G psdue s1 of
                    (Some e, s2) \<Rightarrow> (Inr False, s2)
                  | (None, s2) \<Rightarrow>
                      let psamount = ps\<lparr>psa_amount := psa_amount ps - 1\<rparr> in
                      if psa_amount psamount = 0
                      then (Inr True,
                            s2\<lparr>PlayerSpellAmount_objects :=
                                 delete_row psa_id psamount (PlayerSpellAmount_objects s2)\<rparr>)
                      else
                        (case save_PlayerSpellAmount s2 psamount of
                           Inl e \<Rightarrow> (Inr False, s2)
                         | Inr s3 \<Rightarrow> (Inr True, s3)))))"

section \<open>Notions of the specification\<close>

text \<open>
  The invariant of the amount tables: every stored \<open>PlayerArtifactAmount\<close> and
  \<open>PlayerSpellAmount\<close> row has an amount of at least 1.
\<close>

definition amounts_positive :: "db \<Rightarrow> bool" where
  "amounts_positive s \<longleftrightarrow>
     list_all (\<lambda>r. 1 \<le> paa_amount r) (PlayerArtifactAmount_objects s) \<and>
     list_all (\<lambda>r. 1 \<le> psa_amount r) (PlayerSpellAmount_objects s)"

text \<open>
  The specification's reading of \<open>sisters\<close> for a root group, in its own words: the
  other root groups whose class-rank equals the group's class-rank.
\<close>

definition root_sisters_spec :: "PlayerGroup list \<Rightarrow> PlayerGroup \<Rightarrow> PlayerGroup list" where
  "root_sisters_spec groups g =
     filter (\<lambda>h. parent h = None \<and> gclass h = gclass g \<and> pg_id h \<noteq> pg_id g) groups"

section \<open>Example data\<close>

text \<open>
  An oracle that knows the artifact \<open>shield\<close> (key 1) and whose \<open>post_cast\<close> returns
  without touching the database.
\<close>

definition quiet_God :: God where
  "quiet_God =
     \<lparr>get_artifact_for_modifier =
        (\<lambda>modifier player s. Inr (if modifier = ''shield'' then Some 1 else None)),
      post_cast = (\<lambda>psdue s. (None, s))\<rparr>"

text \<open>
  An oracle whose \<open>post_cast\<close> is a clean-spell: it deletes every spell-due row of the
  player the spell was cast on, the new one included.
\<close>

definition dispel_God :: God where
  "dispel_God =
     \<lparr>get_artifact_for_modifier =
        (\<lambda>modifier player s. Inr (if modifier = ''shield'' then Some 1 else None)),
      post_cast =
        (\<lambda>psdue s.
           (None, s\<lparr>PlayerSpellDue_objects :=
                      filter (\<lambda>d. psd_player d \<noteq> psd_player psdue)
                        (PlayerSpellDue_objects s)\<rparr>))\<rparr>"

text \<open>
  A database with 64-bit integer columns, the artifact \<open>shield\<close>, the spells \<open>curse\<close>
  and \<open>shield\<close>, and no amount or effect rows.
\<close>

definition no_rows :: db where
  "no_rows =
     \<lparr>IntegerField_min = - 9223372036854775808, IntegerField_max = 9223372036854775807,
      Artifact_name = [1 \<mapsto> ''shield''], Spell_name = [7 \<mapsto> ''curse'', 8 \<mapsto> ''shield''],
      PlayerArtifactAmount_objects = [], PlayerArtifactAmount_seq = 0,
      PlayerSpellAmount_objects = [], PlayerSpellAmount_seq = 0,
      PlayerSpellDue_objects = [], PlayerSpellDue_seq = 0\<rparr>"

definition shield3 :: PlayerArtifactAmount where
  "shield3 = \<lparr>paa_id = 1, paa_player = 1, paa_artifact = 1, paa_amount = 3\<rparr>"

definition curse_on_1 :: PlayerSpellDue where
  "curse_on_1 = \<lparr>psd_id = 1, psd_player = 1, psd_spell = 7, psd_source = 2, psd_due = 100\<rparr>"

definition shield_on_1 :: PlayerSpellDue where
  "shield_on_1 = \<lparr>psd_id = 2, psd_player = 1, psd_spell = 8, psd_source = 2, psd_due = 100\<rparr>"

definition curse_of_2 :: PlayerSpellAmount where
  "curse_of_2 = \<lparr>psa_id = 1, psa_player = 2, psa_spell = 7, psa_amount = 1\<rparr>"

definition curses_of_3 :: PlayerSpellAmount where
  "curses_of_3 = \<lparr>psa_id = 2, psa_player = 3, psa_spell = 7, psa_amount = 4\<rparr>"

text \<open>Player 1 holds three shields.\<close>

definition with_shield :: db where
  "with_shield = no_rows\<lparr>PlayerArtifactAmount_objects := [shield3]\<rparr>"

text \<open>Player 1 is under the spell \<open>curse\<close> and holds nothing.\<close>

definition cursed :: db where
  "cursed = no_rows\<lparr>PlayerSpellDue_objects := [curse_on_1]\<rparr>"

text \<open>Player 1 holds three shields and is under the spell named \<open>shield\<close>.\<close>

definition shielded_twice :: db where
  "shielded_twice = with_shield\<lparr>PlayerSpellDue_objects := [shield_on_1]\<rparr>"

text \<open>Player 2 has collected one \<open>curse\<close>, player 3 four.\<close>

definition armed :: db where
  "armed = no_rows\<lparr>PlayerSpellAmount_objects := [curse_of_2, curses_of_3]\<rparr>"

text \<open>As \<open>armed\<close>, with player 1 already under the spell \<open>curse\<close>.\<close>

definition armed_cursed :: db where
  "armed_cursed = armed\<lparr>PlayerSpellDue_objects := [curse_on_1]\<rparr>"

text \<open>Player 1 holds three shields; player 2 has collected one \<open>curse\<close>, player 3 four.\<close>

definition stocked :: db where
  "stocked = armed\<lparr>PlayerArtifactAmount_objects := [shield3]\<rparr>"

text \<open>Player 1 holds nothing and is under the spell named \<open>shield\<close>.\<close>

definition under_shield_spell :: db where
  "under_shield_spell = no_rows\<lparr>PlayerSpellDue_objects := [shield_on_1]\<rparr>"

text \<open>Three groups of class-rank 2: two roots and a child of the second one.\<close>

definition group_a :: PlayerGroup where
  "group_a = \<lparr>pg_id = 1, pg_name = ''A'', gclass = 2, parent = None\<rparr>"

definition group_b :: PlayerGroup where
  "group_b = \<lparr>pg_id = 2, pg_name = ''B'', gclass = 2, parent = None\<rparr>"

definition group_c :: PlayerGroup where
  "group_c = \<lparr>pg_id = 3, pg_name = ''C'', gclass = 2, parent = Some 2\<rparr>"

definition some_groups :: "PlayerGroup list" where
  "some_groups = [group_a, group_b, group_c]"

lemmas example_defs =
  quiet_God_def dispel_God_def no_rows_def shield3_def curse_on_1_def shield_on_1_def curse_of_2_def
  curses_of_3_def with_shield_def cursed_def shielded_twice_def armed_def armed_cursed_def
  stocked_def under_shield_spell_def
  group_a_def group_b_def group_c_def some_groups_def

lemmas query_defs = artifact_amounts_named_def spell_dues_named_def spell_amounts_of_def

section \<open>Facts about tables\<close>

lemma fold_max_ge: "(m::nat) \<le> fold max xs m"
  by (induction xs arbitrary: m) (auto intro: order_trans [OF max.cobounded2])

lemma fold_max_mem: "x \<in> set xs \<Longrightarrow> (x::nat) \<le> fold max xs m"
proof (induction xs arbitrary: m)
  case Nil
  then show ?case by simp
next
  case (Cons y ys)
  show ?case
  proof (cases "x = y")
    case True
    have "x \<le> max y m" using True by simp
    also have "\<dots> \<le> fold max ys (max y m)" by (rule fold_max_ge)
    finally show ?thesis by simp
  next
    case False
    with Cons.prems have "x \<in> set ys" by simp
    then show ?thesis using Cons.IH by simp
  qed
qed

lemma next_id_fresh: "x \<in> set rows \<Longrightarrow> idf x < next_id seq idf rows"
  unfolding next_id_def using fold_max_mem [of "idf x" "map idf rows" 0] by auto

lemma set_save_row: "set (save_row idf r rows) \<subseteq> insert r (set rows)"
  by (auto simp: save_row_def list_ex_iff)

lemma set_delete_row: "set (delete_row idf r rows) \<subseteq> set rows"
  by (auto simp: delete_row_def)

lemma filter_singletonD:
  assumes "filter P rows = [r]"
  shows "r \<in> set rows" and "P r" and "\<And>x. x \<in> set rows \<Longrightarrow> P x \<Longrightarrow> x = r"
proof -
  have s: "set (filter P rows) = {r}" using assms by simp
  then show "r \<in> set rows" "P r" by auto
  fix x assume "x \<in> set rows" "P x"
  then show "x = r" using s by auto
qed

lemma distinct_ids_eq:
  "distinct (map idf rows) \<Longrightarrow> x \<in> set rows \<Longrightarrow> y \<in> set rows \<Longrightarrow> idf x = idf y \<Longrightarrow> x = y"
  by (meson distinct_map inj_onD)

lemma key_selects:
  assumes "distinct (map idf rows)" "filter P rows = [r]" "x \<in> set rows"
  shows "idf x = idf r \<longleftrightarrow> P x"
  using assms filter_singletonD [OF assms(2)] distinct_ids_eq [OF assms(1)] by metis

lemma filter_overwrite:
  "(\<And>x. x \<in> set rows \<Longrightarrow> idf x = k \<longleftrightarrow> P x) \<Longrightarrow> P r' \<Longrightarrow>
   filter P (map (\<lambda>x. if idf x = k then r' else x) rows) = map (\<lambda>_. r') (filter P rows)"
  by (induction rows) auto


lemma save_row_present:
  "r \<in> set rows \<Longrightarrow> idf r' = idf r \<Longrightarrow>
   save_row idf r' rows = map (\<lambda>x. if idf x = idf r then r' else x) rows"
  by (auto simp: save_row_def list_ex_iff)

lemma filter_save_row:
  assumes "distinct (map idf rows)" "filter P rows = [r]" "idf r' = idf r" "P r'"
  shows "filter P (save_row idf r' rows) = [r']"
proof -
  have "filter P (map (\<lambda>x. if idf x = idf r then r' else x) rows) = map (\<lambda>_. r') (filter P rows)"
    using key_selects [OF assms(1,2)] assms(4) by (intro filter_overwrite) auto
  then show ?thesis
    using save_row_present [of r rows idf r'] filter_singletonD(1) [OF assms(2)] assms(2,3) by simp
qed



lemma save_row_restore:
  assumes "distinct (map idf rows)" "r \<in> set rows" "idf r' = idf r"
  shows "save_row idf r (save_row idf r' rows) = rows"
proof -
  have 1: "save_row idf r' rows = map (\<lambda>x. if idf x = idf r then r' else x) rows"
    using assms by (simp add: save_row_present)
  have "r' \<in> set (save_row idf r' rows)"
    unfolding 1 using assms(2) by force
  then have 2: "save_row idf r (save_row idf r' rows)
      = map (\<lambda>x. if idf x = idf r' then r else x) (save_row idf r' rows)"
    using assms(3) by (simp add: save_row_present)
  have "map ((\<lambda>x. if idf x = idf r' then r else x) \<circ> (\<lambda>x. if idf x = idf r then r' else x)) rows = rows"
    using distinct_ids_eq [OF assms(1) _ assms(2)] assms(3)
    by (intro map_idI) auto
  then show ?thesis using 1 2 by simp
qed

lemma delete_row_appended:
  assumes "idf r = next_id seq idf rows" "idf r' = idf r"
  shows "delete_row idf r' (rows @ [r]) = rows"
proof -
  have "idf x \<noteq> idf r'" if "x \<in> set rows" for x
    using next_id_fresh [OF that, of idf seq] assms by simp
  then show ?thesis using assms by (simp add: delete_row_def filter_id_conv)
qed

section \<open>The amounts stay positive\<close>

lemma list_all_save_row: "list_all P rows \<Longrightarrow> P r \<Longrightarrow> list_all P (save_row idf r rows)"
  using set_save_row [of idf r rows] by (auto simp: list_all_iff)

lemma list_all_delete_row: "list_all P rows \<Longrightarrow> list_all P (delete_row idf r rows)"
  using set_delete_row [of idf r rows] by (auto simp: list_all_iff)

lemma get_one_mem: "get_one rows = Inr r \<Longrightarrow> r \<in> set rows"
  by (cases rows rule: get_one.cases) auto

lemma has_modifier_artifact_mem:
  assumes "has_modifier s self modifier = Inr (ArtifactAmount r)"
  shows "r \<in> set (PlayerArtifactAmount_objects s)"
proof (cases "get_one (artifact_amounts_named s self modifier)")
  case (Inl e)
  then show ?thesis
    using assms by (simp add: has_modifier_def split: sum.splits if_splits)
next
  case (Inr x)
  then have "x = r" using assms by (simp add: has_modifier_def)
  then have "r \<in> set (artifact_amounts_named s self modifier)"
    using get_one_mem [OF Inr] by simp
  then show ?thesis by (simp add: artifact_amounts_named_def)
qed

lemma use_modifier_positive:
  assumes "amounts_positive s"
  shows "amounts_positive (snd (use_modifier s self modifier amount))"
proof (cases "has_modifier s self modifier")
  case (Inl e)
  then show ?thesis using assms by (simp add: use_modifier_def)
next
  case (Inr m)
  show ?thesis
  proof (cases m)
    case (ArtifactAmount pa)
    then show ?thesis
      using assms Inr
      by (auto simp: use_modifier_def save_PlayerArtifactAmount_def amounts_positive_def Let_def
          intro!: list_all_save_row list_all_delete_row)
  next
    case (SpellDue d)
    then show ?thesis using assms Inr by (simp add: use_modifier_def)
  next
    case NotFound
    then show ?thesis using assms Inr by (simp add: use_modifier_def)
  qed
qed

lemma give_modifier_positive:
  assumes "amounts_positive s"
  shows "amounts_positive (snd (give_modifier G s self modifier amount))"
proof (cases "amount \<le> 0")
  case True
  then show ?thesis using assms by (simp add: give_modifier_def)
next
  case pos: False
  show ?thesis
  proof (cases "has_modifier s self modifier")
    case (Inl e)
    then show ?thesis using assms pos by (simp add: give_modifier_def)
  next
    case (Inr m)
    show ?thesis
    proof (cases m)
      case (ArtifactAmount pa)
      have "pa \<in> set (PlayerArtifactAmount_objects s)"
        using Inr ArtifactAmount by (simp add: has_modifier_artifact_mem)
      then have "1 \<le> paa_amount pa"
        using assms by (simp add: amounts_positive_def list_all_iff)
      then show ?thesis
        using assms Inr ArtifactAmount pos
        by (auto simp: give_modifier_def save_PlayerArtifactAmount_def amounts_positive_def
            Let_def intro!: list_all_save_row)
    next
      case (SpellDue d)
      then show ?thesis using assms Inr pos by (simp add: give_modifier_def)
    next
      case NotFound
      then show ?thesis
        using assms Inr pos
        by (auto simp: give_modifier_def create_PlayerArtifactAmount_def amounts_positive_def
            Let_def split: sum.splits option.splits)
    qed
  qed
qed

lemma add_spell_positive:
  assumes "amounts_positive s"
  shows "amounts_positive (snd (add_spell s self spell))"
proof (cases "get_one (spell_amounts_of s self spell)")
  case (Inl e)
  then show ?thesis
    using assms
    by (auto simp: add_spell_def create_PlayerSpellAmount_def amounts_positive_def Let_def)
next
  case (Inr ps)
  then have "ps \<in> set (PlayerSpellAmount_objects s)"
    using get_one_mem [OF Inr] by (simp add: spell_amounts_of_def)
  then have "1 \<le> psa_amount ps"
    using assms by (simp add: amounts_positive_def list_all_iff)
  then show ?thesis
    using assms Inr
    by (auto simp: add_spell_def save_PlayerSpellAmount_def amounts_positive_def Let_def
        intro!: list_all_save_row)
qed

lemma cast_spell_positive:
  assumes "amounts_positive s"
    and "\<And>d st. amounts_positive st \<Longrightarrow> amounts_positive (snd (post_cast G d st))"
  shows "amounts_positive (snd (cast_spell G s self spell source due))"
proof (cases "get_one (spell_amounts_of s source spell)")
  case (Inl e)
  then show ?thesis using assms(1) by (simp add: cast_spell_def)
next
  case (Inr ps)
  show ?thesis
  proof (cases "0 < psa_amount ps")
    case False
    then show ?thesis using assms(1) Inr by (simp add: cast_spell_def)
  next
    case held: True
    show ?thesis
    proof (cases "list_ex (\<lambda>x. psd_player x = self \<and> psd_spell x = spell)
                    (PlayerSpellDue_objects s)")
      case True
      then show ?thesis
        using assms(1) Inr held by (simp add: cast_spell_def create_PlayerSpellDue_def)
    next
      case False
      define k where "k = next_id (PlayerSpellDue_seq s) psd_id (PlayerSpellDue_objects s)"
      define psdue where "psdue = \<lparr>psd_id = k, psd_player = self, psd_spell = spell,
          psd_source = source, psd_due = due\<rparr>"
      define s1 where "s1 = s\<lparr>PlayerSpellDue_objects := PlayerSpellDue_objects s @ [psdue],
          PlayerSpellDue_seq := k\<rparr>"
      have c: "create_PlayerSpellDue s self source spell due = (Inr psdue, s1)"
        using False by (simp add: create_PlayerSpellDue_def psdue_def s1_def k_def Let_def)
      have "amounts_positive s1"
        using assms(1) by (simp add: amounts_positive_def s1_def)
      then have p2: "amounts_positive (snd (post_cast G psdue s1))"
        by (rule assms(2))
      obtain e s2 where pc: "post_cast G psdue s1 = (e, s2)"
        by (cases "post_cast G psdue s1")
      with p2 have "amounts_positive s2" by simp
      then show ?thesis
        using Inr held c pc
        by (cases e)
          (auto simp: cast_spell_def save_PlayerSpellAmount_def amounts_positive_def Let_def
            intro!: list_all_save_row list_all_delete_row)
    qed
  qed
qed

lemma quiet_God_quiet: "post_cast quiet_God d st = (None, st)"
  by (simp add: quiet_God_def)


section \<open>\<open>sisters\<close>\<close>

text \<open>
  C2 (as amended). For a root group (no parent) whose \<open>_sisters\<close> is still empty,
  \<open>sisters\<close> returns the other groups, root or not, whose class-rank equals the
  group's, in table order.
\<close>

theorem sisters_of_root:
  assumes "parent g = None"
  shows "sisters groups g [] =
           Inr (filter (\<lambda>h. gclass h = gclass g \<and> pg_id h \<noteq> pg_id g) groups)"
  using assms by (simp add: sisters_def conj_commute)

theorem sisters_of_root_witness:
  "parent group_a = None \<and> sisters some_groups group_a [] = Inr [group_b, group_c]"
proof -
  have a: "parent group_a = None" by (simp add: example_defs)
  show ?thesis
    using a sisters_of_root [OF a, of some_groups] by (simp add: example_defs)
qed

text \<open>
  C2 as stated (the other \<^emph>\<open>root\<close> groups of the same class-rank) fails: group C has
  class-rank 2 and a parent, and is among the sisters of the root group A.
\<close>

theorem sisters_of_root_counterexample:
  "parent group_a = None \<and> gclass group_a = 2 \<and>
   sisters some_groups group_a [] = Inr [group_b, group_c] \<and>
   root_sisters_spec some_groups group_a = [group_b] \<and>
   gclass group_c = 2 \<and> parent group_c = Some 2"
  by (simp add: sisters_def root_sisters_spec_def example_defs)

section \<open>\<open>has_modifier\<close>, \<open>use_modifier\<close>, \<open>give_modifier\<close>\<close>

lemma use_modifier_missing:
  "artifact_amounts_named s self modifier = [] \<Longrightarrow> spell_dues_named s self modifier = [] \<Longrightarrow>
   use_modifier s self modifier amount = (Inl AttributeError, s)"
  by (simp add: use_modifier_def has_modifier_def)

lemma use_modifier_insufficient:
  "artifact_amounts_named s self modifier = [r] \<Longrightarrow> paa_amount r < amount \<Longrightarrow>
   use_modifier s self modifier amount = (Inl InsufficientAmount, s)"
  by (simp add: use_modifier_def has_modifier_def)

text \<open>
  C1. \<open>use_modifier(m, a)\<close> with \<open>a\<close> above the holding is claimed to raise
  \<open>InsufficientAmount\<close> and to leave the amount records unchanged, also when the holding
  is zero because no amount record exists. With a record, that is
  \<open>use_modifier_insufficient\<close>. Without one, \<open>has_modifier\<close> returns \<open>False\<close> and
  the read of \<open>.amount\<close> raises \<open>AttributeError\<close>: for player 1, who holds nothing,
  \<open>use_modifier("shield", 1)\<close> ends in \<open>AttributeError\<close>, the database unchanged.
\<close>

theorem use_modifier_no_record:
  "use_modifier no_rows 1 ''shield'' 1 = (Inl AttributeError, no_rows)"
  by (simp add: use_modifier_def has_modifier_def query_defs no_rows_def)

text \<open>
  C7. \<open>has_modifier(m)\<close> returns the player's artifact-amount record named \<open>m\<close> when
  there is one, whatever the spell-due records are; otherwise the player's spell-due
  record named \<open>m\<close> when there is one; otherwise \<open>False\<close>.
\<close>

theorem has_modifier_prefers_artifact:
  "(artifact_amounts_named s self modifier = [r] \<longrightarrow>
      has_modifier s self modifier = Inr (ArtifactAmount r)) \<and>
   (artifact_amounts_named s self modifier = [] \<and> spell_dues_named s self modifier = [d] \<longrightarrow>
      has_modifier s self modifier = Inr (SpellDue d)) \<and>
   (artifact_amounts_named s self modifier = [] \<and> spell_dues_named s self modifier = [] \<longrightarrow>
      has_modifier s self modifier = Inr NotFound)"
  by (simp add: has_modifier_def)

theorem has_modifier_prefers_artifact_witness:
  "(artifact_amounts_named shielded_twice 1 ''shield'' = [shield3] \<and>
    spell_dues_named shielded_twice 1 ''shield'' = [shield_on_1] \<and>
    has_modifier shielded_twice 1 ''shield'' = Inr (ArtifactAmount shield3)) \<and>
   (artifact_amounts_named cursed 1 ''curse'' = [] \<and>
    spell_dues_named cursed 1 ''curse'' = [curse_on_1] \<and>
    has_modifier cursed 1 ''curse'' = Inr (SpellDue curse_on_1)) \<and>
   (artifact_amounts_named no_rows 1 ''shield'' = [] \<and>
    spell_dues_named no_rows 1 ''shield'' = [] \<and>
    has_modifier no_rows 1 ''shield'' = Inr NotFound)"
proof -
  have a: "artifact_amounts_named shielded_twice 1 ''shield'' = [shield3]"
    and b: "spell_dues_named shielded_twice 1 ''shield'' = [shield_on_1]"
    and c: "artifact_amounts_named cursed 1 ''curse'' = []"
    and d: "spell_dues_named cursed 1 ''curse'' = [curse_on_1]"
    and e: "artifact_amounts_named no_rows 1 ''shield'' = []"
    and f: "spell_dues_named no_rows 1 ''shield'' = []"
    by (simp_all add: query_defs example_defs)
  show ?thesis
    using a b c d e f
      has_modifier_prefers_artifact [of shielded_twice 1 "''shield''" shield3]
      has_modifier_prefers_artifact [of cursed 1 "''curse''" _ curse_on_1]
      has_modifier_prefers_artifact [of no_rows 1 "''shield''"]
    by simp
qed

text \<open>
  C8. \<open>give_modifier(m, a)\<close> with \<open>a \<le> 0\<close> returns at once: no record is created and
  the database is the one before.
\<close>

theorem give_modifier_nonpositive:
  "amount \<le> 0 \<Longrightarrow> give_modifier G s self modifier amount = (Inr None, s)"
  by (simp add: give_modifier_def)

theorem give_modifier_nonpositive_witness:
  "(-2::int) \<le> 0 \<and>
   give_modifier quiet_God with_shield 1 ''shield'' (-2) = (Inr None, with_shield)"
  using give_modifier_nonpositive [of "-2" quiet_God with_shield 1 "''shield''"] by simp

text \<open>
  C9. When the only match of \<open>has_modifier(m)\<close> is a spell-due record, \<open>use_modifier(m, a)\<close>
  and, for \<open>a > 0\<close>, \<open>give_modifier(m, a)\<close> read \<open>.amount\<close> of a \<open>PlayerSpellDue\<close>
  object and end in \<open>AttributeError\<close>; nothing is granted or decremented, and
  \<open>InsufficientAmount\<close> is not raised.
\<close>

theorem modifier_ops_on_spell_due:
  assumes "artifact_amounts_named s self modifier = []"
    and "spell_dues_named s self modifier = [d]"
  shows "use_modifier s self modifier amount = (Inl AttributeError, s) \<and>
         (0 < amount \<longrightarrow> give_modifier G s self modifier amount = (Inl AttributeError, s))"
  using assms by (simp add: use_modifier_def give_modifier_def has_modifier_def)

theorem modifier_ops_on_spell_due_witness:
  "artifact_amounts_named cursed 1 ''curse'' = [] \<and>
   spell_dues_named cursed 1 ''curse'' = [curse_on_1] \<and> (0::int) < 3 \<and>
   use_modifier cursed 1 ''curse'' 3 = (Inl AttributeError, cursed) \<and>
   give_modifier quiet_God cursed 1 ''curse'' 3 = (Inl AttributeError, cursed)"
proof -
  have a: "artifact_amounts_named cursed 1 ''curse'' = []"
    and d: "spell_dues_named cursed 1 ''curse'' = [curse_on_1]"
    by (simp_all add: query_defs example_defs)
  show ?thesis
    using a d modifier_ops_on_spell_due [OF a d, of 3 quiet_God] by simp
qed

text \<open>
  C3 (as amended). Let \<open>a > 0\<close>, let the column hold 1 and the amount after the grant,
  and let the player either hold one artifact-amount record named \<open>m\<close>, of amount 1 or
  more, or have no artifact-amount and no spell-due record named \<open>m\<close> while the oracle
  answers with an artifact named \<open>m\<close>. Then \<open>give_modifier(m, a)\<close> and then
  \<open>use_modifier(m, a)\<close> both return, and the three tables hold the rows they held before
  the grant; when there was no record, the one created by the grant has been deleted and
  \<open>has_modifier(m)\<close> is \<open>False\<close>.
\<close>

theorem give_then_use_restores:
  assumes pos: "0 < a"
    and pk: "distinct (map paa_id (PlayerArtifactAmount_objects s))"
    and lo: "IntegerField_min s \<le> 1"
    and st: "(\<exists>r. artifact_amounts_named s p m = [r] \<and> 1 \<le> paa_amount r \<and>
                  paa_amount r + a \<le> IntegerField_max s) \<or>
             (artifact_amounts_named s p m = [] \<and> spell_dues_named s p m = [] \<and>
              a \<le> IntegerField_max s \<and>
              (\<exists>aid. get_artifact_for_modifier G m p s = Inr (Some aid) \<and>
                     Artifact_name s aid = Some m))"
  shows "\<exists>x s1 y s2.
           give_modifier G s p m a = (Inr (Some x), s1) \<and>
           use_modifier s1 p m a = (Inr y, s2) \<and>
           PlayerArtifactAmount_objects s2 = PlayerArtifactAmount_objects s \<and>
           PlayerSpellAmount_objects s2 = PlayerSpellAmount_objects s \<and>
           PlayerSpellDue_objects s2 = PlayerSpellDue_objects s \<and>
           (artifact_amounts_named s p m = [] \<longrightarrow> has_modifier s2 p m = Inr NotFound)"
  using st
proof (elim disjE exE conjE)
  fix r
  assume q: "artifact_amounts_named s p m = [r]" and held: "1 \<le> paa_amount r"
    and fits: "paa_amount r + a \<le> IntegerField_max s"
  let ?P = "\<lambda>x. paa_player x = p \<and> Artifact_name s (paa_artifact x) = Some m"
  let ?rows = "PlayerArtifactAmount_objects s"
  define r' where "r' = r\<lparr>paa_amount := paa_amount r + a\<rparr>"
  define s1 where "s1 = s\<lparr>PlayerArtifactAmount_objects := save_row paa_id r' ?rows\<rparr>"
  have f: "filter ?P ?rows = [r]"
    using q by (simp add: artifact_amounts_named_def)
  have mem: "r \<in> set ?rows" and Pr: "?P r"
    using filter_singletonD(1,2) [OF f] by blast+
  have id: "paa_id r' = paa_id r" and Pr': "?P r'"
    using Pr by (simp_all add: r'_def)
  have st1: "storable s (paa_amount r + a)" and st2: "storable s1 (paa_amount r)"
    using pos lo held fits by (simp_all add: storable_def s1_def)
  have h: "has_modifier s p m = Inr (ArtifactAmount r)"
    using q by (simp add: has_modifier_def)
  have give: "give_modifier G s p m a = (Inr (Some (ArtifactAmount r')), s1)"
    using pos h st1
    by (simp add: give_modifier_def save_PlayerArtifactAmount_def r'_def s1_def Let_def)
  have "filter ?P (save_row paa_id r' ?rows) = [r']"
    by (rule filter_save_row [OF pk f id Pr'])
  then have q1: "artifact_amounts_named s1 p m = [r']"
    by (simp add: artifact_amounts_named_def s1_def)
  then have h1: "has_modifier s1 p m = Inr (ArtifactAmount r')"
    by (simp add: has_modifier_def)
  have same: "r'\<lparr>paa_amount := paa_amount r' - a\<rparr> = r"
    by (simp add: r'_def)
  have "save_row paa_id r (save_row paa_id r' ?rows) = ?rows"
    by (rule save_row_restore [OF pk mem id])
  then have "s1\<lparr>PlayerArtifactAmount_objects :=
      save_row paa_id r (PlayerArtifactAmount_objects s1)\<rparr> = s"
    by (simp add: s1_def)
  then have use: "use_modifier s1 p m a = (Inr (ArtifactAmount r), s)"
    using h1 held same pos st2
    by (simp add: use_modifier_def save_PlayerArtifactAmount_def r'_def Let_def)
  show ?thesis
    using give use q by simp
next
  fix aid
  assume q: "artifact_amounts_named s p m = []" and d: "spell_dues_named s p m = []"
    and fits: "a \<le> IntegerField_max s"
    and god: "get_artifact_for_modifier G m p s = Inr (Some aid)"
    and name: "Artifact_name s aid = Some m"
  let ?P = "\<lambda>x. paa_player x = p \<and> Artifact_name s (paa_artifact x) = Some m"
  let ?rows = "PlayerArtifactAmount_objects s"
  define k where "k = next_id (PlayerArtifactAmount_seq s) paa_id ?rows"
  define r0 where "r0 = \<lparr>paa_id = k, paa_player = p, paa_artifact = aid, paa_amount = a\<rparr>"
  define s1 where "s1 = s\<lparr>PlayerArtifactAmount_objects := ?rows @ [r0],
      PlayerArtifactAmount_seq := k\<rparr>"
  define s2 where "s2 = s1\<lparr>PlayerArtifactAmount_objects := ?rows\<rparr>"
  have f: "filter ?P ?rows = []"
    using q by (simp add: artifact_amounts_named_def)
  have h: "has_modifier s p m = Inr NotFound"
    using q d by (simp add: has_modifier_def)
  have sa: "storable s a"
    using pos lo fits by (simp add: storable_def)
  have new: "\<not> list_ex (\<lambda>x. paa_player x = p \<and> paa_artifact x = aid) ?rows"
  proof
    assume "list_ex (\<lambda>x. paa_player x = p \<and> paa_artifact x = aid) ?rows"
    then obtain x where "x \<in> set ?rows" "paa_player x = p" "paa_artifact x = aid"
      by (auto simp: list_ex_iff)
    then have "x \<in> set (filter ?P ?rows)" using name by simp
    then show False using f by simp
  qed
  have c: "create_PlayerArtifactAmount s p (Some aid) a = (Inr r0, s1)"
    using new sa by (simp add: create_PlayerArtifactAmount_def r0_def s1_def k_def Let_def)
  have give: "give_modifier G s p m a = (Inr (Some (ArtifactAmount r0)), s1)"
    using pos h god c by (simp add: give_modifier_def)
  have "filter ?P (?rows @ [r0]) = [r0]"
    using f name by (simp add: r0_def)
  then have q1: "artifact_amounts_named s1 p m = [r0]"
    by (simp add: artifact_amounts_named_def s1_def)
  then have h1: "has_modifier s1 p m = Inr (ArtifactAmount r0)"
    by (simp add: has_modifier_def)
  have "delete_row paa_id (r0\<lparr>paa_amount := 0\<rparr>) (?rows @ [r0]) = ?rows"
    by (rule delete_row_appended [where seq = "PlayerArtifactAmount_seq s"])
      (simp_all add: r0_def k_def)
  then have "s1\<lparr>PlayerArtifactAmount_objects :=
      delete_row paa_id (r0\<lparr>paa_amount := 0\<rparr>) (PlayerArtifactAmount_objects s1)\<rparr> = s2"
    by (simp add: s1_def s2_def)
  then have use: "use_modifier s1 p m a = (Inr (ArtifactAmount (r0\<lparr>paa_amount := 0\<rparr>)), s2)"
    using h1 by (simp add: use_modifier_def r0_def Let_def)
  have "artifact_amounts_named s2 p m = []" and "spell_dues_named s2 p m = []"
    using q d by (simp_all add: query_defs s2_def s1_def)
  then have h2: "has_modifier s2 p m = Inr NotFound"
    by (simp add: has_modifier_def)
  have tables: "PlayerArtifactAmount_objects s2 = ?rows"
    "PlayerSpellAmount_objects s2 = PlayerSpellAmount_objects s"
    "PlayerSpellDue_objects s2 = PlayerSpellDue_objects s"
    by (simp_all add: s2_def s1_def)
  show ?thesis
    using give use h2 tables by blast
qed

theorem give_then_use_restores_witness:
  "(0::int) < 2 \<and> IntegerField_min with_shield \<le> 1 \<and> IntegerField_min no_rows \<le> 1 \<and>
   distinct (map paa_id (PlayerArtifactAmount_objects with_shield)) \<and>
   artifact_amounts_named with_shield 1 ''shield'' = [shield3] \<and> 1 \<le> paa_amount shield3 \<and>
   paa_amount shield3 + 2 \<le> IntegerField_max with_shield \<and>
   distinct (map paa_id (PlayerArtifactAmount_objects no_rows)) \<and>
   artifact_amounts_named no_rows 1 ''shield'' = [] \<and>
   spell_dues_named no_rows 1 ''shield'' = [] \<and> 2 \<le> IntegerField_max no_rows \<and>
   get_artifact_for_modifier quiet_God ''shield'' 1 no_rows = Inr (Some 1) \<and>
   Artifact_name no_rows 1 = Some ''shield'' \<and>
   (\<exists>x s1 y s2. give_modifier quiet_God with_shield 1 ''shield'' 2 = (Inr (Some x), s1) \<and>
      use_modifier s1 1 ''shield'' 2 = (Inr y, s2) \<and>
      PlayerArtifactAmount_objects s2 = [shield3]) \<and>
   (\<exists>x s1 y s2. give_modifier quiet_God no_rows 1 ''shield'' 2 = (Inr (Some x), s1) \<and>
      use_modifier s1 1 ''shield'' 2 = (Inr y, s2) \<and>
      PlayerArtifactAmount_objects s2 = [] \<and>
      has_modifier s2 1 ''shield'' = Inr NotFound)"
proof -
  have pos: "(0::int) < 2" by simp
  have lo1: "IntegerField_min with_shield \<le> 1"
    and lo0: "IntegerField_min no_rows \<le> 1"
    and pk1: "distinct (map paa_id (PlayerArtifactAmount_objects with_shield))"
    and q1: "artifact_amounts_named with_shield 1 ''shield'' = [shield3]"
    and a1: "1 \<le> paa_amount shield3"
    and f1: "paa_amount shield3 + 2 \<le> IntegerField_max with_shield"
    and pk0: "distinct (map paa_id (PlayerArtifactAmount_objects no_rows))"
    and q0: "artifact_amounts_named no_rows 1 ''shield'' = []"
    and d0: "spell_dues_named no_rows 1 ''shield'' = []"
    and f0: "2 \<le> IntegerField_max no_rows"
    and g0: "get_artifact_for_modifier quiet_God ''shield'' 1 no_rows = Inr (Some 1)"
    and n0: "Artifact_name no_rows 1 = Some ''shield''"
    by (simp_all add: query_defs example_defs)
  have rows1: "PlayerArtifactAmount_objects with_shield = [shield3]"
    and rows0: "PlayerArtifactAmount_objects no_rows = []"
    by (simp_all add: example_defs)
  have st1: "(\<exists>r. artifact_amounts_named with_shield 1 ''shield'' = [r] \<and> 1 \<le> paa_amount r \<and>
        paa_amount r + 2 \<le> IntegerField_max with_shield) \<or>
      (artifact_amounts_named with_shield 1 ''shield'' = [] \<and>
       spell_dues_named with_shield 1 ''shield'' = [] \<and> 2 \<le> IntegerField_max with_shield \<and>
       (\<exists>aid. get_artifact_for_modifier quiet_God ''shield'' 1 with_shield = Inr (Some aid) \<and>
          Artifact_name with_shield aid = Some ''shield''))"
    using q1 a1 f1 by blast
  have st0: "(\<exists>r. artifact_amounts_named no_rows 1 ''shield'' = [r] \<and> 1 \<le> paa_amount r \<and>
        paa_amount r + 2 \<le> IntegerField_max no_rows) \<or>
      (artifact_amounts_named no_rows 1 ''shield'' = [] \<and>
       spell_dues_named no_rows 1 ''shield'' = [] \<and> 2 \<le> IntegerField_max no_rows \<and>
       (\<exists>aid. get_artifact_for_modifier quiet_God ''shield'' 1 no_rows = Inr (Some aid) \<and>
          Artifact_name no_rows aid = Some ''shield''))"
    using q0 d0 f0 g0 n0 by blast
  have w1: "\<exists>x s1 y s2. give_modifier quiet_God with_shield 1 ''shield'' 2 = (Inr (Some x), s1) \<and>
      use_modifier s1 1 ''shield'' 2 = (Inr y, s2) \<and>
      PlayerArtifactAmount_objects s2 = [shield3]"
    using give_then_use_restores [OF pos pk1 lo1 st1] unfolding rows1 by blast
  have w0: "\<exists>x s1 y s2. give_modifier quiet_God no_rows 1 ''shield'' 2 = (Inr (Some x), s1) \<and>
      use_modifier s1 1 ''shield'' 2 = (Inr y, s2) \<and>
      PlayerArtifactAmount_objects s2 = [] \<and>
      has_modifier s2 1 ''shield'' = Inr NotFound"
    using give_then_use_restores [OF pos pk0 lo0 st0] q0 unfolding rows0 by blast
  from pos lo1 lo0 pk1 q1 a1 f1 pk0 q0 d0 f0 g0 n0 w1 w0 show ?thesis
    by blast
qed

text \<open>
  C3 as stated, for every player and every \<open>a > 0\<close>, fails twice. A player who has no
  artifact-amount record named \<open>shield\<close> but is under a spell of that name: the grant
  of 2 ends in \<open>AttributeError\<close>, and so does the use; the holding is zero, yet
  \<open>has_modifier\<close> returns the spell-due record, not \<open>False\<close>. A player who holds 3
  shields in a 64-bit column: the grant of 9223372036854775805 is refused at \<open>save()\<close>
  and nothing is granted.
\<close>

theorem give_then_use_counterexample:
  "(0::int) < 2 \<and>
   get_artifact_for_modifier quiet_God ''shield'' 1 under_shield_spell = Inr (Some 1) \<and>
   Artifact_name under_shield_spell 1 = Some ''shield'' \<and>
   artifact_amounts_named under_shield_spell 1 ''shield'' = [] \<and>
   give_modifier quiet_God under_shield_spell 1 ''shield'' 2 =
     (Inl AttributeError, under_shield_spell) \<and>
   use_modifier under_shield_spell 1 ''shield'' 2 = (Inl AttributeError, under_shield_spell) \<and>
   has_modifier under_shield_spell 1 ''shield'' = Inr (SpellDue shield_on_1) \<and>
   artifact_amounts_named with_shield 1 ''shield'' = [shield3] \<and> paa_amount shield3 = 3 \<and>
   give_modifier quiet_God with_shield 1 ''shield'' 9223372036854775805 =
     (Inl OverflowError, with_shield)"
  by (simp add: give_modifier_def use_modifier_def has_modifier_def
      save_PlayerArtifactAmount_def storable_def Let_def query_defs example_defs)

section \<open>\<open>cast_spell\<close>\<close>

lemma cast_spell_succeeds:
  assumes "spell_amounts_of s source spell = [r]" and "1 \<le> psa_amount r"
    and "create_PlayerSpellDue s self source spell due = (Inr psdue, s1)"
    and "post_cast G psdue s1 = (None, s2)"
    and "psa_amount r = 1 \<or> storable s2 (psa_amount r - 1)"
  shows "fst (cast_spell G s self spell source due) = Inr True"
  using assms
  by (auto simp: cast_spell_def save_PlayerSpellAmount_def Let_def)

text \<open>
  C5. When the source holds none of the spell (no \<open>PlayerSpellAmount\<close> row, or one
  whose amount is not positive), \<open>cast_spell\<close> returns \<open>False\<close> and the database,
  hence the source's holdings and the target's active effects, is the one before.
\<close>

theorem cast_spell_without_holding:
  assumes "spell_amounts_of s source spell = [] \<or>
           (\<exists>r. spell_amounts_of s source spell = [r] \<and> psa_amount r \<le> 0)"
  shows "cast_spell G s self spell source due = (Inr False, s)"
  using assms by (auto simp: cast_spell_def)

theorem cast_spell_without_holding_witness:
  "spell_amounts_of armed 4 7 = [] \<and>
   cast_spell quiet_God armed 1 7 4 50 = (Inr False, armed)"
proof -
  have a: "spell_amounts_of armed 4 7 = []"
    by (simp add: query_defs example_defs)
  then show ?thesis
    using cast_spell_without_holding [of armed 4 7 quiet_God 1 50] by simp
qed

text \<open>
  C10. When the target already has a spell-due row for the spell and the source holds at
  least one, the \<open>create\<close> is refused (\<open>unique_together\<close>), the exception is swallowed,
  \<open>cast_spell\<close> returns \<open>False\<close>, and the database is the one before.
\<close>

theorem cast_spell_already_active:
  assumes "spell_amounts_of s source spell = [r]" and "1 \<le> psa_amount r"
    and "list_ex (\<lambda>d. psd_player d = self \<and> psd_spell d = spell) (PlayerSpellDue_objects s)"
  shows "cast_spell G s self spell source due = (Inr False, s)"
  using assms by (simp add: cast_spell_def create_PlayerSpellDue_def)

theorem cast_spell_already_active_witness:
  "spell_amounts_of armed_cursed 3 7 = [curses_of_3] \<and> 1 \<le> psa_amount curses_of_3 \<and>
   list_ex (\<lambda>d. psd_player d = 1 \<and> psd_spell d = 7) (PlayerSpellDue_objects armed_cursed) \<and>
   cast_spell quiet_God armed_cursed 1 7 3 50 = (Inr False, armed_cursed)"
proof -
  have a: "spell_amounts_of armed_cursed 3 7 = [curses_of_3]"
    and b: "1 \<le> psa_amount curses_of_3"
    and c: "list_ex (\<lambda>d. psd_player d = 1 \<and> psd_spell d = 7)
              (PlayerSpellDue_objects armed_cursed)"
    by (simp_all add: query_defs example_defs)
  show ?thesis
    using a b c cast_spell_already_active [OF a b c, of quiet_God 50] by simp
qed




section \<open>The invariant of the amount tables\<close>

text \<open>
  C6. The operations \<open>give_modifier\<close>, \<open>use_modifier\<close>, \<open>add_spell\<close> and
  \<open>cast_spell\<close> keep every stored \<open>PlayerArtifactAmount\<close> and \<open>PlayerSpellAmount\<close>
  amount at 1 or more, whatever their arguments and whether they return or raise: a row
  whose amount reaches 0 is deleted, not stored. For \<open>cast_spell\<close> the oracle's
  \<open>post_cast\<close> is taken to keep the amounts positive too.
\<close>

theorem amounts_positive_preserved:
  assumes "amounts_positive s"
    and "\<forall>d st. amounts_positive st \<longrightarrow> amounts_positive (snd (post_cast G d st))"
  shows "amounts_positive (snd (give_modifier G s p m a)) \<and>
         amounts_positive (snd (use_modifier s p' m' a')) \<and>
         amounts_positive (snd (add_spell s q spell)) \<and>
         amounts_positive (snd (cast_spell G s target spell' source due))"
  using assms
  by (simp add: give_modifier_positive use_modifier_positive add_spell_positive
      cast_spell_positive)

theorem amounts_positive_preserved_witness:
  "amounts_positive stocked \<and>
   (\<forall>d st. snd (post_cast quiet_God d st) = st) \<and>
   amounts_positive (snd (give_modifier quiet_God stocked 1 ''shield'' 2)) \<and>
   amounts_positive (snd (use_modifier stocked 1 ''shield'' 3)) \<and>
   amounts_positive (snd (add_spell stocked 2 7)) \<and>
   amounts_positive (snd (cast_spell quiet_God stocked 1 7 2 50))"
proof -
  have a: "amounts_positive stocked"
    by (simp add: amounts_positive_def example_defs)
  have b: "\<forall>d st. amounts_positive st \<longrightarrow> amounts_positive (snd (post_cast quiet_God d st))"
    by (simp add: quiet_God_quiet)
  have q: "\<forall>d st. snd (post_cast quiet_God d st) = st"
    by (simp add: quiet_God_quiet)
  show ?thesis
    using a q amounts_positive_preserved [OF a b, of 1 "''shield''" 2 1 "''shield''" 3 2 7 1 7 2 50]
    by blast
qed

end
